theory Spec2Isabelle
  imports Complex_Main "HOL-Library.Word" "HOL-Library.Multiset"
begin

section \<open>JavaScript values and string primitives used by the scaler\<close>

text \<open>
  The scaler of \<^verbatim>\<open>client/js/scaling/scaler.js\<close> works on JavaScript strings, on
  optional strings (a MIME type that may be \<^verbatim>\<open>undefined\<close>) and on arrays. A string is
  modelled as a \<^typ>\<open>string\<close>, an optional string as \<^typ>\<open>string option\<close> with
  \<^term>\<open>None\<close> for \<^verbatim>\<open>undefined\<close>. Method names that start with an underscore in the
  source (\<^verbatim>\<open>_getName\<close>, ...) lose it here, since an Isabelle name starts with a letter.
\<close>

definition truthy :: "string option \<Rightarrow> bool" where
  \<comment> \<open>JavaScript truthiness of an optional string: \<^verbatim>\<open>undefined\<close> and \<^verbatim>\<open>""\<close> are falsy.\<close>
  "truthy v = (case v of None \<Rightarrow> False | Some s \<Rightarrow> s \<noteq> [])"

definition js_str :: "string option \<Rightarrow> string" where
  \<comment> \<open>What string concatenation makes of an optional string.\<close>
  "js_str v = (case v of None \<Rightarrow> ''undefined'' | Some s \<Rightarrow> s)"

definition or_else :: "string option \<Rightarrow> string \<Rightarrow> string" where
  \<comment> \<open>\<^verbatim>\<open>v || d\<close> for an optional string \<open>v\<close>: the default replaces a falsy value.\<close>
  "or_else v d = (case v of None \<Rightarrow> d | Some s \<Rightarrow> if s = [] then d else s)"

fun index :: "'a list \<Rightarrow> nat \<Rightarrow> 'a option" where
  \<comment> \<open>\<^verbatim>\<open>arr[i]\<close>: \<^verbatim>\<open>undefined\<close> beyond the end.\<close>
  "index [] i = None"
| "index (x # xs) 0 = Some x"
| "index (x # xs) (Suc i) = index xs i"

fun split_on :: "char \<Rightarrow> string \<Rightarrow> string list" where
  \<comment> \<open>\<^verbatim>\<open>s.split(sep)\<close> for a one-character separator and no limit: every occurrence splits.\<close>
  "split_on sep [] = [[]]"
| "split_on sep (c # cs) =
     (if c = sep then [] # split_on sep cs
      else (case split_on sep cs of
              [] \<Rightarrow> [[c]]
            | p # ps \<Rightarrow> (c # p) # ps))"

fun lastIndexOf :: "string \<Rightarrow> char \<Rightarrow> int" where
  \<comment> \<open>\<^verbatim>\<open>s.lastIndexOf(c)\<close>: the last position of \<open>c\<close>, or \<open>-1\<close>.\<close>
  "lastIndexOf [] c = -1"
| "lastIndexOf (x # xs) c =
     (let r = lastIndexOf xs c
      in if r \<ge> 0 then r + 1 else if x = c then 0 else -1)"

fun indexOf :: "'a list \<Rightarrow> 'a \<Rightarrow> int" where
  \<comment> \<open>\<^verbatim>\<open>qq.indexOf(arr, elt)\<close>: the first position of the element, or \<open>-1\<close>.\<close>
  "indexOf [] e = -1"
| "indexOf (x # xs) e =
     (if x = e then 0
      else (let r = indexOf xs e in if r \<ge> 0 then r + 1 else -1))"

definition substr0 :: "string \<Rightarrow> int \<Rightarrow> string" where
  \<comment> \<open>\<^verbatim>\<open>s.substr(0, n)\<close>.\<close>
  "substr0 s n = take (nat n) s"

definition getExtension :: "string \<Rightarrow> string option" where
  \<comment> \<open>Modelled from the spec: \<^verbatim>\<open>qq.getExtension\<close> is a utility of the library that is
      not among the sources. The Name Deriver of the spec takes the last \<^verbatim>\<open>.\<close> of the
      original name as the extension boundary and the text after it as the original
      extension; a name with no \<^verbatim>\<open>.\<close> has none.\<close>
  "getExtension filename =
     (let extIdx = lastIndexOf filename CHR ''.'' + 1
      in if extIdx > 0 then Some (drop (nat extIdx) filename) else None)"

section \<open>Blobs and the platform\<close>

text \<open>
  A \<^verbatim>\<open>Blob\<close> carries its bytes and its MIME type (a string, empty when unknown); a
  \<^verbatim>\<open>File\<close> is a blob with a name.
\<close>

record blob =
  blob_name :: "string option"
  blob_type :: string
  blob_bytes :: "8 word list"

text \<open>
  The platform facts the scaler consults: the capability flags of
  \<^verbatim>\<open>qq.supportedFeatures\<close>, the keys of
  \<^verbatim>\<open>qq.Identify.prototype.PREVIEWABLE_MIME_TYPES\<close>, the previewability check
  \<^verbatim>\<open>new qq.Identify(blob, log).isPreviewableSync()\<close> and the identifier allocator
  \<^verbatim>\<open>qq.getUniqueId()\<close>. None is defined in the scaler's source, so they are parameters
  of the model. The allocator is stateful: the model numbers its calls and
  \<open>getUniqueId sv k\<close> is the identifier the \<open>k\<close>-th call returns.
\<close>

record platform =
  imagePreviews :: bool
  tiffPreviews :: bool
  PREVIEWABLE_MIME_TYPES :: "string list"

record services =
  isPreviewableSync :: "blob \<Rightarrow> bool"
  getUniqueId :: "nat \<Rightarrow> string"

section \<open>Type negotiation: \<^verbatim>\<open>_determineOutputType\<close>\<close>

record type_spec =
  defaultType :: "string option"
  requestedType :: "string option"
  refType :: string

definition determineOutputType :: "platform \<Rightarrow> type_spec \<Rightarrow> string option" where
  "determineOutputType pf spec =
     (let requestedType = requestedType spec;
          defaultType = defaultType spec;
          referenceType = refType spec
      in if \<not> truthy defaultType \<and> \<not> truthy requestedType then
           (if referenceType \<noteq> ''image/jpeg'' then Some ''image/png''
            else Some referenceType)
         else if \<not> truthy requestedType then defaultType
         else if indexOf (map Some (PREVIEWABLE_MIME_TYPES pf)) requestedType \<ge> 0 then
           (if requestedType = Some ''image/tiff'' then
              (if tiffPreviews pf then requestedType else defaultType)
            else requestedType)
         else defaultType)"

section \<open>Name derivation: \<^verbatim>\<open>_getName\<close>\<close>

record version_props =
  vname :: string
  vtype :: "string option"
  vrefType :: string

definition getName :: "string \<Rightarrow> version_props \<Rightarrow> string" where
  "getName originalName scaledVersionProperties =
     (let startOfExt = lastIndexOf originalName CHR ''.'';
          nameAppendage = '' ('' @ vname scaledVersionProperties @ '')'';
          versionType = or_else (vtype scaledVersionProperties) ''image/png'';
          referenceType = vrefType scaledVersionProperties;
          scaledExt = getExtension originalName
      in if startOfExt \<ge> 0 then
           (let scaledExt' = (if referenceType \<noteq> versionType
                              then index (split_on CHR ''/'' versionType) 1
                              else scaledExt)
            in substr0 originalName startOfExt @ nameAppendage @ ''.'' @ js_str scaledExt')
         else originalName @ nameAppendage)"

section \<open>Size ordering: \<^verbatim>\<open>_getSortedSizes\<close>\<close>

record sizeRecord =
  maxSize :: int
  sname :: string
  stype :: "string option"

text \<open>
  \<^verbatim>\<open>Array.prototype.sort(compareFn)\<close> puts \<open>a\<close> after \<open>b\<close> when
  \<open>compareFn a b > 0\<close>. The order it leaves between elements that compare equal depends
  on the engine; the model takes the stable choice (an insertion sort driven by the
  comparator), and no property below depends on that choice.
\<close>

fun place :: "('a \<Rightarrow> 'a \<Rightarrow> int) \<Rightarrow> 'a \<Rightarrow> 'a list \<Rightarrow> 'a list" where
  "place compareFn a [] = [a]"
| "place compareFn a (b # bs) =
     (if compareFn a b > 0 then b # place compareFn a bs else a # b # bs)"

fun array_sort :: "('a \<Rightarrow> 'a \<Rightarrow> int) \<Rightarrow> 'a list \<Rightarrow> 'a list" where
  "array_sort compareFn [] = []"
| "array_sort compareFn (a # as) = place compareFn a (array_sort compareFn as)"

definition compareSizes :: "sizeRecord \<Rightarrow> sizeRecord \<Rightarrow> int" where
  \<comment> \<open>The comparator that \<^verbatim>\<open>_getSortedSizes\<close> hands to the sort.\<close>
  "compareSizes a b =
     (if maxSize a > maxSize b then 1
      else if maxSize a < maxSize b then -1
      else 0)"

definition getSortedSizes :: "sizeRecord list \<Rightarrow> sizeRecord list" where
  \<comment> \<open>\<^verbatim>\<open>qq.extend([], sizes)\<close> copies the array, so the caller's array is left alone.\<close>
  "getSortedSizes sizes = array_sort compareSizes sizes"

section \<open>The orchestrator: \<^verbatim>\<open>qq.Scaler\<close> and \<^verbatim>\<open>getFileRecords\<close>\<close>

text \<open>The options record handed to the constructor.\<close>

record scaler_spec =
  sendOriginal :: bool
  orient :: bool
  specDefaultType :: "string option"
  defaultQuality :: int
  failureText :: string
  includeExif :: bool
  sizes :: "sizeRecord list"

text \<open>
  What \<^verbatim>\<open>qq.bind(self._generateScaledImage, self, {...})\<close> closes over: the first
  argument of the generator (the logger apart, which the model replaces by the list of
  logged messages). The quality is \<^verbatim>\<open>spec.defaultQuality / 100\<close>, kept as an exact
  fraction.
\<close>

record generator_spec =
  gmaxSize :: int
  gorient :: bool
  gtype :: "string option"
  gquality :: rat
  gfailedText :: string
  gincludeExif :: bool

text \<open>
  The \<^verbatim>\<open>blob\<close> of a record is either a \<^verbatim>\<open>qq.BlobProxy\<close> (the reference blob and the
  generator that makes the scaled blob on demand) or the reference blob itself.
\<close>

datatype record_blob = BlobProxy blob generator_spec | Direct blob

record file_record =
  uuid :: string
  rname :: string
  rblob :: record_blob

text \<open>
  The third argument of \<^verbatim>\<open>getFileRecords\<close> is a blob, or a wrapper with a
  \<^verbatim>\<open>blob\<close> property.
\<close>

datatype blob_or_data = IsBlob blob | BlobData string blob

definition originalBlobOf :: "blob_or_data \<Rightarrow> blob" where
  \<comment> \<open>\<^verbatim>\<open>originalBlobOrBlobData.blob ? originalBlobOrBlobData.blob : originalBlobOrBlobData\<close>\<close>
  "originalBlobOf originalBlobOrBlobData =
     (case originalBlobOrBlobData of IsBlob b \<Rightarrow> b | BlobData n b \<Rightarrow> b)"

definition enabled :: "platform \<Rightarrow> scaler_spec \<Rightarrow> bool" where
  "enabled pf spec = (imagePreviews pf \<and> length (getSortedSizes (sizes spec)) > 0)"

definition scaledRecord ::
  "platform \<Rightarrow> services \<Rightarrow> scaler_spec \<Rightarrow> string \<Rightarrow> blob \<Rightarrow> nat \<Rightarrow> sizeRecord \<Rightarrow> file_record" where
  \<comment> \<open>The body of the \<^verbatim>\<open>qq.each(sizes, ...)\<close> callback; \<open>k\<close> numbers the call of the
      identifier allocator.\<close>
  "scaledRecord pf sv spec originalFileName originalBlob k sizeRec =
     (let outputType = determineOutputType pf
            \<lparr>defaultType = specDefaultType spec,
             requestedType = stype sizeRec,
             refType = blob_type originalBlob\<rparr>
      in \<lparr>uuid = getUniqueId sv k,
          rname = getName originalFileName
            \<lparr>vname = sname sizeRec, vtype = outputType, vrefType = blob_type originalBlob\<rparr>,
          rblob = BlobProxy originalBlob
            \<lparr>gmaxSize = maxSize sizeRec,
             gorient = orient spec,
             gtype = outputType,
             gquality = of_int (defaultQuality spec) / 100,
             gfailedText = failureText spec,
             gincludeExif = includeExif spec\<rparr>\<rparr>)"

fun eachSize ::
  "platform \<Rightarrow> services \<Rightarrow> scaler_spec \<Rightarrow> string \<Rightarrow> blob \<Rightarrow> sizeRecord list \<Rightarrow>
   file_record list \<times> nat \<Rightarrow> file_record list \<times> nat" where
  \<comment> \<open>\<^verbatim>\<open>qq.each(sizes, ...)\<close> with \<^verbatim>\<open>records.push\<close>: the state is the records so far and
      the number of identifiers drawn.\<close>
  "eachSize pf sv spec originalFileName originalBlob [] st = st"
| "eachSize pf sv spec originalFileName originalBlob (sizeRec # rest) (records, k) =
     eachSize pf sv spec originalFileName originalBlob rest
       (records @ [scaledRecord pf sv spec originalFileName originalBlob k sizeRec], Suc k)"

definition getFileRecords ::
  "platform \<Rightarrow> services \<Rightarrow> scaler_spec \<Rightarrow> nat \<Rightarrow> string \<Rightarrow> string \<Rightarrow> blob_or_data \<Rightarrow>
   file_record list \<times> nat" where
  \<comment> \<open>The constructor's closure variables are bound first, as the constructor does; the
      result is the records and the number of identifiers drawn so far.\<close>
  "getFileRecords pf sv spec k originalFileUuid originalFileName originalBlobOrBlobData =
     (let includeReference = sendOriginal spec;
          sizes = getSortedSizes (sizes spec);
          originalBlob = originalBlobOf originalBlobOrBlobData;
          (records, k') =
            (if isPreviewableSync sv originalBlob
             then eachSize pf sv spec originalFileName originalBlob sizes ([], k)
             else ([], k));
          records' =
            (if includeReference
             then records @ [\<lparr>uuid = originalFileUuid, rname = originalFileName,
                              rblob = Direct originalBlob\<rparr>]
             else records)
      in (records', k'))"

definition record_maxSize :: "file_record \<Rightarrow> int option" where
  \<comment> \<open>The size bound a record was made for; the reference record has none.\<close>
  "record_maxSize r = (case rblob r of BlobProxy b g \<Rightarrow> Some (gmaxSize g) | Direct b \<Rightarrow> None)"

definition record_type :: "file_record \<Rightarrow> string option option" where
  \<comment> \<open>The negotiated type a record was made for; the reference record has none.\<close>
  "record_type r = (case rblob r of BlobProxy b g \<Rightarrow> Some (gtype g) | Direct b \<Rightarrow> None)"

section \<open>Facts about the string primitives\<close>

lemma lastIndexOf_absent: "c \<notin> set s \<Longrightarrow> lastIndexOf s c = -1"
  by (induction s) (auto simp: Let_def)

lemma lastIndexOf_nonneg_iff: "lastIndexOf s c \<ge> 0 \<longleftrightarrow> c \<in> set s"
  by (induction s) (auto simp: Let_def)

lemma lastIndexOf_last:
  "c \<notin> set ext \<Longrightarrow> lastIndexOf (pre @ c # ext) c = int (length pre)"
  by (induction pre) (auto simp: Let_def lastIndexOf_absent)

lemma getExtension_last:
  "CHR ''.'' \<notin> set ext \<Longrightarrow> getExtension (pre @ CHR ''.'' # ext) = Some ext"
proof -
  assume h: "CHR ''.'' \<notin> set ext"
  have n: "nat (int (length pre) + 1) = Suc (length pre)" by simp
  from h have "lastIndexOf (pre @ CHR ''.'' # ext) CHR ''.'' = int (length pre)"
    by (rule lastIndexOf_last)
  then show ?thesis
    by (simp add: getExtension_def Let_def n)
qed

lemma getExtension_none: "CHR ''.'' \<notin> set s \<Longrightarrow> getExtension s = None"
  by (simp add: getExtension_def Let_def lastIndexOf_absent)

lemma last_dot_split:
  "CHR ''.'' \<in> set s \<Longrightarrow> \<exists>pre ext. s = pre @ CHR ''.'' # ext \<and> CHR ''.'' \<notin> set ext"
  by (metis split_list_last)

section \<open>Properties of the type negotiation\<close>

text \<open>
  Claim C6, as the claim states it, fails: a configured \<^verbatim>\<open>defaultType\<close> is returned
  verbatim when no type is requested, so a default of \<^verbatim>\<open>image/tiff\<close> comes back
  although the platform reports no TIFF previews.
\<close>

theorem determineOutputType_tiff_counterexample:
  "determineOutputType
     \<lparr>imagePreviews = True, tiffPreviews = False,
      PREVIEWABLE_MIME_TYPES =
        [''image/jpeg'', ''image/gif'', ''image/png'', ''image/bmp'', ''image/tiff'']\<rparr>
     \<lparr>defaultType = Some ''image/tiff'', requestedType = None, refType = ''image/jpeg''\<rparr>
   = Some ''image/tiff''"
  by (simp add: determineOutputType_def truthy_def)

text \<open>
  Claim C6, amended: for every default type, requested type, reference type and platform,
  \<^verbatim>\<open>_determineOutputType\<close> returns \<^verbatim>\<open>image/tiff\<close> only if the configured default type
  is itself \<^verbatim>\<open>image/tiff\<close>, or the TIFF-preview capability flag is true and
  \<^verbatim>\<open>image/tiff\<close> is the requested type.
\<close>

theorem determineOutputType_tiff:
  "determineOutputType pf spec = Some ''image/tiff'' \<Longrightarrow>
     defaultType spec = Some ''image/tiff'' \<or>
     (tiffPreviews pf \<and> requestedType spec = Some ''image/tiff'')"
  by (auto simp: determineOutputType_def Let_def split: if_splits)

theorem determineOutputType_tiff_witness:
  "determineOutputType
     \<lparr>imagePreviews = True, tiffPreviews = True,
      PREVIEWABLE_MIME_TYPES =
        [''image/jpeg'', ''image/gif'', ''image/png'', ''image/bmp'', ''image/tiff'']\<rparr>
     \<lparr>defaultType = None, requestedType = Some ''image/tiff'', refType = ''image/png''\<rparr>
   = Some ''image/tiff''
   \<and> (defaultType \<lparr>defaultType = None, requestedType = Some ''image/tiff'',
                      refType = ''image/png''\<rparr> = Some ''image/tiff''
      \<or> (tiffPreviews \<lparr>imagePreviews = True, tiffPreviews = True,
             PREVIEWABLE_MIME_TYPES =
               [''image/jpeg'', ''image/gif'', ''image/png'', ''image/bmp'', ''image/tiff'']\<rparr>
         \<and> requestedType \<lparr>defaultType = None, requestedType = Some ''image/tiff'',
                            refType = ''image/png''\<rparr> = Some ''image/tiff''))"
proof -
  let ?pf = "\<lparr>imagePreviews = True, tiffPreviews = True,
      PREVIEWABLE_MIME_TYPES =
        [''image/jpeg'', ''image/gif'', ''image/png'', ''image/bmp'', ''image/tiff'']\<rparr>"
  let ?spec = "\<lparr>defaultType = None, requestedType = Some ''image/tiff'',
      refType = ''image/png''\<rparr>"
  have r: "determineOutputType ?pf ?spec = Some ''image/tiff''"
    by (simp add: determineOutputType_def truthy_def)
  from r determineOutputType_tiff [OF r] show ?thesis
    by blast
qed

section \<open>Properties of the name derivation\<close>

text \<open>
  Claim C7, as the claim states it, fails when the negotiated type and the reference type
  are both the empty string (the type of a blob of unknown kind, which the negotiation
  returns when a falsy default stands in for an unrecognised request): the empty
  negotiated type is replaced by \<^verbatim>\<open>image/png\<close>, which differs from the reference type,
  and the extension becomes \<^verbatim>\<open>png\<close>.
\<close>

theorem getName_same_type_counterexample:
  "getName ''photo.jpg'' \<lparr>vname = ''small'', vtype = Some [], vrefType = []\<rparr>
     = ''photo (small).png''
   \<and> getExtension ''photo.jpg'' = Some ''jpg''"
  by (simp add: getName_def Let_def or_else_def getExtension_def substr0_def js_str_def)

text \<open>
  Claim C7, amended: for every original name with a \<^verbatim>\<open>.\<close> (written as the text
  \<open>base\<close> before its last \<^verbatim>\<open>.\<close> and the extension \<open>ext\<close> after it, as
  \<open>last_dot_split\<close> allows), every label and
  every non-empty negotiated type \<open>t\<close> equal to the reference type, the derived name is
  \<open>base\<close>, the label in parentheses, \<^verbatim>\<open>.\<close> and the unchanged \<open>ext\<close>; the extension of
  the derived name is the extension of the original name.
\<close>

theorem getName_same_type_keeps_extension:
  assumes "t \<noteq> []" and "CHR ''.'' \<notin> set ext"
  shows "getName (base @ ''.'' @ ext) \<lparr>vname = label, vtype = Some t, vrefType = t\<rparr>
           = base @ '' ('' @ label @ '').'' @ ext
         \<and> getExtension (getName (base @ ''.'' @ ext)
               \<lparr>vname = label, vtype = Some t, vrefType = t\<rparr>)
           = getExtension (base @ ''.'' @ ext)"
proof -
  have orig: "getExtension (base @ CHR ''.'' # ext) = Some ext"
    using assms(2) by (rule getExtension_last)
  have idx: "lastIndexOf (base @ CHR ''.'' # ext) CHR ''.'' = int (length base)"
    using assms(2) by (rule lastIndexOf_last)
  have name: "getName (base @ ''.'' @ ext) \<lparr>vname = label, vtype = Some t, vrefType = t\<rparr>
                = base @ '' ('' @ label @ '').'' @ ext"
    using assms(1) orig idx
    by (simp add: getName_def Let_def or_else_def substr0_def js_str_def)
  have "getExtension ((base @ '' ('' @ label @ '')'') @ CHR ''.'' # ext) = Some ext"
    using assms(2) by (rule getExtension_last)
  with name orig show ?thesis by simp
qed

theorem getName_same_type_keeps_extension_witness:
  "getName (''photo'' @ ''.'' @ ''jpg'')
       \<lparr>vname = ''small'', vtype = Some ''image/jpeg'', vrefType = ''image/jpeg''\<rparr>
     = ''photo (small).jpg''
   \<and> getExtension ''photo (small).jpg'' = Some ''jpg''"
proof -
  have a: "''image/jpeg'' \<noteq> []" by simp
  have b: "CHR ''.'' \<notin> set ''jpg''" by simp
  from getName_same_type_keeps_extension [OF a b, of "''photo''" "''small''"]
  show ?thesis
    by (simp add: getExtension_def Let_def)
qed

text \<open>
  Claim C10: a negotiated type that is absent (\<^verbatim>\<open>undefined\<close> or empty) is replaced by
  \<^verbatim>\<open>image/png\<close>. For every original name with a \<^verbatim>\<open>.\<close>, the derived name then ends in
  \<^verbatim>\<open>png\<close> when the reference type is not \<^verbatim>\<open>image/png\<close>, and keeps the original
  extension when it is; on every name the result is the one for the type \<^verbatim>\<open>image/png\<close>.
\<close>

theorem getName_absent_type_is_png:
  assumes "\<not> truthy t" and "CHR ''.'' \<notin> set ext"
  shows "getName (base @ ''.'' @ ext) \<lparr>vname = label, vtype = t, vrefType = r\<rparr>
           = base @ '' ('' @ label @ '').'' @ (if r = ''image/png'' then ext else ''png'')
         \<and> getName X \<lparr>vname = label, vtype = t, vrefType = r\<rparr>
           = getName X \<lparr>vname = label, vtype = Some ''image/png'', vrefType = r\<rparr>"
proof -
  have sub: "or_else t ''image/png'' = ''image/png''"
    using assms(1) by (auto simp: or_else_def truthy_def split: option.splits)
  have orig: "getExtension (base @ CHR ''.'' # ext) = Some ext"
    using assms(2) by (rule getExtension_last)
  have idx: "lastIndexOf (base @ CHR ''.'' # ext) CHR ''.'' = int (length base)"
    using assms(2) by (rule lastIndexOf_last)
  have one: "getName (base @ ''.'' @ ext) \<lparr>vname = label, vtype = t, vrefType = r\<rparr>
           = base @ '' ('' @ label @ '').'' @ (if r = ''image/png'' then ext else ''png'')"
    using orig idx by (simp add: getName_def Let_def sub substr0_def js_str_def)
  have two: "getName X \<lparr>vname = label, vtype = t, vrefType = r\<rparr>
           = getName X \<lparr>vname = label, vtype = Some ''image/png'', vrefType = r\<rparr>"
  proof -
    have "or_else (Some ''image/png'') ''image/png'' = ''image/png''"
      by (simp add: or_else_def)
    then show ?thesis
      by (simp add: getName_def sub)
  qed
  from one two show ?thesis by simp
qed

theorem getName_absent_type_is_png_witness:
  "\<not> truthy None
   \<and> getName (''photo'' @ ''.'' @ ''jpg'')
        \<lparr>vname = ''small'', vtype = None, vrefType = ''image/jpeg''\<rparr>
     = ''photo (small).png''"
proof -
  have a: "\<not> truthy None" by (simp add: truthy_def)
  have b: "CHR ''.'' \<notin> set ''jpg''" by simp
  from a getName_absent_type_is_png [OF a b, of "''photo''" "''small''" "''image/jpeg''" "''photo''"]
  show ?thesis
    by simp
qed

section \<open>Properties of the size ordering and of the orchestrator\<close>

lemma mset_place: "mset (place compareFn a bs) = add_mset a (mset bs)"
  by (induction bs) auto

lemma mset_array_sort: "mset (array_sort compareFn xs) = mset xs"
  by (induction xs) (auto simp: mset_place)

lemma set_place: "set (place compareFn a bs) = insert a (set bs)"
  by (induction bs) auto

lemma sorted_place:
  "sorted (map maxSize bs) \<Longrightarrow> sorted (map maxSize (place compareSizes a bs))"
  by (induction bs) (auto simp: set_place compareSizes_def split: if_splits)

lemma sorted_getSortedSizes: "sorted (map maxSize (getSortedSizes xs))"
  unfolding getSortedSizes_def by (induction xs) (auto simp: sorted_place)

lemma mset_getSortedSizes: "mset (getSortedSizes xs) = mset xs"
  by (simp add: getSortedSizes_def mset_array_sort)

lemma eachSize_maxSizes:
  "map record_maxSize (fst (eachSize pf sv spec nm b ss (recs, k)))
     = map record_maxSize recs @ map (\<lambda>s. Some (maxSize s)) ss"
  by (induction ss arbitrary: recs k) (auto simp: scaledRecord_def record_maxSize_def Let_def)

lemma eachSize_count: "snd (eachSize pf sv spec nm b ss (recs, k)) = k + length ss"
  by (induction ss arbitrary: recs k) auto

text \<open>
  Claim C1: for every list of size specs and every reference blob that passes the
  previewability check, the records that \<^verbatim>\<open>getFileRecords\<close> returns are one scaled
  record per size spec, in non-decreasing order of \<^verbatim>\<open>maxSize\<close>, followed, when
  \<^verbatim>\<open>sendOriginal\<close> is set, by the record of the untouched reference, which is the last
  element of the list.
\<close>

theorem getFileRecords_ascending_reference_last:
  assumes "isPreviewableSync sv (originalBlobOf input)"
  shows "map record_maxSize (fst (getFileRecords pf sv spec k fid nm input))
           = map (\<lambda>s. Some (maxSize s)) (getSortedSizes (sizes spec))
             @ (if sendOriginal spec then [None] else [])
         \<and> sorted (map maxSize (getSortedSizes (sizes spec)))
         \<and> mset (getSortedSizes (sizes spec)) = mset (sizes spec)
         \<and> (sendOriginal spec \<longrightarrow>
              last (fst (getFileRecords pf sv spec k fid nm input))
                = \<lparr>uuid = fid, rname = nm, rblob = Direct (originalBlobOf input)\<rparr>)"
proof -
  have sizes_then_reference:
    "map record_maxSize (fst (getFileRecords pf sv spec k fid nm input))
       = map (\<lambda>s. Some (maxSize s)) (getSortedSizes (sizes spec))
         @ (if sendOriginal spec then [None] else [])"
    using assms
    by (simp add: getFileRecords_def Let_def split_beta eachSize_maxSizes record_maxSize_def)
  have reference_last:
    "sendOriginal spec \<longrightarrow>
       last (fst (getFileRecords pf sv spec k fid nm input))
         = \<lparr>uuid = fid, rname = nm, rblob = Direct (originalBlobOf input)\<rparr>"
    by (simp add: getFileRecords_def Let_def split_beta)
  from sizes_then_reference reference_last show ?thesis
    by (simp add: sorted_getSortedSizes mset_getSortedSizes)
qed

theorem getFileRecords_ascending_reference_last_witness:
  "isPreviewableSync \<lparr>isPreviewableSync = (\<lambda>b. blob_type b = ''image/png''),
                      getUniqueId = (\<lambda>k. replicate k CHR ''i'')\<rparr>
     (originalBlobOf
        (IsBlob \<lparr>blob_name = Some ''a.png'', blob_type = ''image/png'', blob_bytes = []\<rparr>))
   \<and> map record_maxSize (fst (getFileRecords
         \<lparr>imagePreviews = True, tiffPreviews = False, PREVIEWABLE_MIME_TYPES = []\<rparr>
         \<lparr>isPreviewableSync = (\<lambda>b. blob_type b = ''image/png''),
          getUniqueId = (\<lambda>k. replicate k CHR ''i'')\<rparr>
         \<lparr>sendOriginal = True, orient = False, specDefaultType = None, defaultQuality = 80,
          failureText = ''failed'', includeExif = False,
          sizes = [\<lparr>maxSize = 400, sname = ''large'', stype = None\<rparr>,
                   \<lparr>maxSize = 100, sname = ''small'', stype = None\<rparr>,
                   \<lparr>maxSize = 200, sname = ''medium'', stype = None\<rparr>]\<rparr>
         0 ''ref'' ''a.png''
         (IsBlob \<lparr>blob_name = Some ''a.png'', blob_type = ''image/png'', blob_bytes = []\<rparr>)))
     = [Some 100, Some 200, Some 400, None]"
proof -
  let ?sv = "\<lparr>isPreviewableSync = (\<lambda>b. blob_type b = ''image/png''),
              getUniqueId = (\<lambda>k. replicate k CHR ''i'')\<rparr>"
  let ?input = "IsBlob \<lparr>blob_name = Some ''a.png'', blob_type = ''image/png'',
                          blob_bytes = []\<rparr>"
  have p: "isPreviewableSync ?sv (originalBlobOf ?input)"
    by (simp add: originalBlobOf_def)
  from p getFileRecords_ascending_reference_last [OF p] show ?thesis
    by (simp add: getSortedSizes_def compareSizes_def)
qed

text \<open>
  Claim C8: the reference is \<^verbatim>\<open>photo.jpg\<close> of type \<^verbatim>\<open>image/jpeg\<close> (and previewable),
  the sizes are \<^verbatim>\<open>[{maxSize:100,name:"small"},{maxSize:400,name:"large"}]\<close>,
  \<^verbatim>\<open>sendOriginal\<close> is set, and neither a default type nor a requested type is given.
  Then \<^verbatim>\<open>getFileRecords\<close> returns exactly three records, named
  \<^verbatim>\<open>photo (small).jpg\<close>, \<^verbatim>\<open>photo (large).jpg\<close> and \<^verbatim>\<open>photo.jpg\<close> in that order; the
  first two are negotiated to \<^verbatim>\<open>image/jpeg\<close> and the third is the reference itself.
\<close>

theorem getFileRecords_photo_scenario:
  assumes "isPreviewableSync sv b"
    and "blob_type b = ''image/jpeg''"
    and "sendOriginal spec"
    and "specDefaultType spec = None"
    and "sizes spec = [\<lparr>maxSize = 100, sname = ''small'', stype = None\<rparr>,
                       \<lparr>maxSize = 400, sname = ''large'', stype = None\<rparr>]"
  shows "map rname (fst (getFileRecords pf sv spec k fid ''photo.jpg'' (IsBlob b)))
           = [''photo (small).jpg'', ''photo (large).jpg'', ''photo.jpg'']
         \<and> map record_type (fst (getFileRecords pf sv spec k fid ''photo.jpg'' (IsBlob b)))
           = [Some (Some ''image/jpeg''), Some (Some ''image/jpeg''), None]
         \<and> last (fst (getFileRecords pf sv spec k fid ''photo.jpg'' (IsBlob b)))
           = \<lparr>uuid = fid, rname = ''photo.jpg'', rblob = Direct b\<rparr>"
  using assms
  by (simp add: getFileRecords_def Let_def originalBlobOf_def getSortedSizes_def
      compareSizes_def scaledRecord_def determineOutputType_def truthy_def getName_def
      or_else_def getExtension_def substr0_def js_str_def record_type_def)

theorem getFileRecords_photo_scenario_witness:
  "map rname (fst (getFileRecords
       \<lparr>imagePreviews = True, tiffPreviews = False,
        PREVIEWABLE_MIME_TYPES = [''image/jpeg'', ''image/png'']\<rparr>
       \<lparr>isPreviewableSync = (\<lambda>b. blob_type b = ''image/jpeg''),
        getUniqueId = (\<lambda>k. replicate k CHR ''i'')\<rparr>
       \<lparr>sendOriginal = True, orient = True, specDefaultType = None, defaultQuality = 80,
        failureText = ''failed'', includeExif = False,
        sizes = [\<lparr>maxSize = 100, sname = ''small'', stype = None\<rparr>,
                 \<lparr>maxSize = 400, sname = ''large'', stype = None\<rparr>]\<rparr>
       0 ''ref'' ''photo.jpg''
       (IsBlob \<lparr>blob_name = Some ''photo.jpg'', blob_type = ''image/jpeg'',
                blob_bytes = []\<rparr>)))
   = [''photo (small).jpg'', ''photo (large).jpg'', ''photo.jpg'']"
proof -
  let ?sv = "\<lparr>isPreviewableSync = (\<lambda>b. blob_type b = ''image/jpeg''),
              getUniqueId = (\<lambda>k. replicate k CHR ''i'')\<rparr>"
  let ?b = "\<lparr>blob_name = Some ''photo.jpg'', blob_type = ''image/jpeg'', blob_bytes = []\<rparr>"
  let ?spec = "\<lparr>sendOriginal = True, orient = True, specDefaultType = None,
        defaultQuality = 80, failureText = ''failed'', includeExif = False,
        sizes = [\<lparr>maxSize = 100, sname = ''small'', stype = None\<rparr>,
                 \<lparr>maxSize = 400, sname = ''large'', stype = None\<rparr>]\<rparr>"
  have h1: "isPreviewableSync ?sv ?b" by simp
  have h2: "blob_type ?b = ''image/jpeg''" by simp
  have h3: "sendOriginal ?spec" by simp
  have h4: "specDefaultType ?spec = None" by simp
  have h5: "sizes ?spec = [\<lparr>maxSize = 100, sname = ''small'', stype = None\<rparr>,
                          \<lparr>maxSize = 400, sname = ''large'', stype = None\<rparr>]" by simp
  from getFileRecords_photo_scenario [OF h1 h2 h3 h4 h5] show ?thesis
    by blast
qed

text \<open>
  Claim C9: for every reference blob that the previewability check rejects,
  \<^verbatim>\<open>getFileRecords\<close> makes no scaled record and draws no identifier: it returns the
  record of the reference alone when \<^verbatim>\<open>sendOriginal\<close> is set and the empty list
  otherwise. The function has no failing branch, so nothing is raised.
\<close>

theorem getFileRecords_not_previewable:
  assumes "\<not> isPreviewableSync sv (originalBlobOf input)"
  shows "getFileRecords pf sv spec k fid nm input
           = (if sendOriginal spec
              then [\<lparr>uuid = fid, rname = nm, rblob = Direct (originalBlobOf input)\<rparr>]
              else [], k)"
  using assms by (simp add: getFileRecords_def Let_def)

theorem getFileRecords_not_previewable_witness:
  "\<not> isPreviewableSync \<lparr>isPreviewableSync = (\<lambda>b. blob_type b = ''image/jpeg''),
                       getUniqueId = (\<lambda>k. replicate k CHR ''i'')\<rparr>
       (originalBlobOf (BlobData ''notes.txt''
          \<lparr>blob_name = None, blob_type = ''text/plain'', blob_bytes = [104, 105]\<rparr>))
   \<and> getFileRecords
       \<lparr>imagePreviews = True, tiffPreviews = False,
        PREVIEWABLE_MIME_TYPES = [''image/jpeg'', ''image/png'']\<rparr>
       \<lparr>isPreviewableSync = (\<lambda>b. blob_type b = ''image/jpeg''),
        getUniqueId = (\<lambda>k. replicate k CHR ''i'')\<rparr>
       \<lparr>sendOriginal = True, orient = True, specDefaultType = None, defaultQuality = 80,
        failureText = ''failed'', includeExif = False,
        sizes = [\<lparr>maxSize = 100, sname = ''small'', stype = None\<rparr>]\<rparr>
       7 ''ref'' ''notes.txt''
       (BlobData ''notes.txt''
          \<lparr>blob_name = None, blob_type = ''text/plain'', blob_bytes = [104, 105]\<rparr>)
     = ([\<lparr>uuid = ''ref'', rname = ''notes.txt'',
          rblob = Direct \<lparr>blob_name = None, blob_type = ''text/plain'',
                           blob_bytes = [104, 105]\<rparr>\<rparr>], 7)"
proof -
  let ?sv = "\<lparr>isPreviewableSync = (\<lambda>b. blob_type b = ''image/jpeg''),
              getUniqueId = (\<lambda>k. replicate k CHR ''i'')\<rparr>"
  let ?input = "BlobData ''notes.txt''
          \<lparr>blob_name = None, blob_type = ''text/plain'', blob_bytes = [104, 105]\<rparr>"
  have p: "\<not> isPreviewableSync ?sv (originalBlobOf ?input)"
    by (simp add: originalBlobOf_def)
  from p getFileRecords_not_previewable [OF p] show ?thesis
    by (simp add: originalBlobOf_def)
qed

section \<open>The binary codec: \<^verbatim>\<open>_dataUriToBlob\<close>\<close>

text \<open>
  The codec calls three primitives of the platform: \<^verbatim>\<open>String.prototype.indexOf\<close>,
  \<^verbatim>\<open>atob\<close> and \<^verbatim>\<open>decodeURI\<close>. They are modelled after their standards. A Data-URI is
  a \<^typ>\<open>string\<close>, so its code units are below 256 (a Data-URI is ASCII); a decoded
  string is the list of its UTF-16 code units, which may be larger. What the source
  throws is the left summand of the result.
\<close>

datatype js_error = InvalidCharacterError | URIError | TypeError | TransplantError

fun indexOfString :: "string \<Rightarrow> string \<Rightarrow> int" where
  \<comment> \<open>\<^verbatim>\<open>s.indexOf(pat)\<close>: the first position where \<open>pat\<close> occurs in \<open>s\<close>, or \<open>-1\<close>.\<close>
  "indexOfString [] pat = (if pat = [] then 0 else -1)"
| "indexOfString (c # cs) pat =
     (if take (length pat) (c # cs) = pat then 0
      else (let r = indexOfString cs pat in if r \<ge> 0 then r + 1 else -1))"

text \<open>
  \<^verbatim>\<open>atob\<close> is the forgiving base64 decoding of the HTML standard: ASCII whitespace is
  removed; if the length is then a multiple of four, one or two final \<^verbatim>\<open>=\<close> are
  removed; a length that leaves remainder one, or a character outside the alphabet, is an
  \<^verbatim>\<open>InvalidCharacterError\<close>; four characters make three bytes, a final group of three
  makes two bytes and a final group of two makes one.
\<close>

definition isWhitespace :: "char \<Rightarrow> bool" where
  "isWhitespace c = (of_char c \<in> {9, 10, 12, 13, 32 :: nat})"

definition b64_value :: "char \<Rightarrow> nat option" where
  "b64_value c =
     (let n = of_char c :: nat
      in if 65 \<le> n \<and> n \<le> 90 then Some (n - 65)
         else if 97 \<le> n \<and> n \<le> 122 then Some (n - 71)
         else if 48 \<le> n \<and> n \<le> 57 then Some (n + 4)
         else if n = 43 then Some 62
         else if n = 47 then Some 63
         else None)"

fun sextets :: "string \<Rightarrow> nat list option" where
  "sextets [] = Some []"
| "sextets (c # cs) =
     (case b64_value c of
        None \<Rightarrow> None
      | Some v \<Rightarrow> (case sextets cs of None \<Rightarrow> None | Some vs \<Rightarrow> Some (v # vs)))"

fun b64_bytes :: "nat list \<Rightarrow> nat list" where
  \<comment> \<open>The bytes of a list of six-bit values. A single value cannot remain at the end: such
      a length was refused before.\<close>
  "b64_bytes (a # b # c # d # rest) =
     (a * 4 + b div 16) # ((b mod 16) * 16 + c div 4) # ((c mod 4) * 64 + d) # b64_bytes rest"
| "b64_bytes [a, b, c] = [a * 4 + b div 16, (b mod 16) * 16 + c div 4]"
| "b64_bytes [a, b] = [a * 4 + b div 16]"
| "b64_bytes [a] = []"
| "b64_bytes [] = []"

definition strip_padding :: "string \<Rightarrow> string" where
  "strip_padding data =
     (if length data mod 4 = 0 then
        (if 2 \<le> length data \<and> drop (length data - 2) data = ''==''
         then take (length data - 2) data
         else if 1 \<le> length data \<and> drop (length data - 1) data = ''=''
         then take (length data - 1) data
         else data)
      else data)"

definition atob :: "string \<Rightarrow> js_error + nat list" where
  "atob input =
     (let data = strip_padding (filter (\<lambda>c. \<not> isWhitespace c) input)
      in if length data mod 4 = 1 then Inl InvalidCharacterError
         else (case sextets data of
                 None \<Rightarrow> Inl InvalidCharacterError
               | Some vs \<Rightarrow> Inr (b64_bytes vs)))"

text \<open>
  \<^verbatim>\<open>decodeURI\<close> is the \<^verbatim>\<open>Decode\<close> operation of ECMAScript with the reserved set
  \<^verbatim>\<open>;/?:@&=+$,#\<close>. Every \<^verbatim>\<open>%\<close> must start an escape of two hexadecimal digits. An
  escape below 128 is the character it names, unless that character is reserved: then
  the escape stays as it is written. An escape of 128 or more starts a UTF-8 sequence of
  two to four escapes, which must be a valid encoding of a code point; the code point is
  appended as one UTF-16 code unit, or as a surrogate pair. Anything else is a
  \<^verbatim>\<open>URIError\<close>.
\<close>

definition hex_value :: "char \<Rightarrow> nat option" where
  "hex_value c =
     (let n = of_char c :: nat
      in if 48 \<le> n \<and> n \<le> 57 then Some (n - 48)
         else if 65 \<le> n \<and> n \<le> 70 then Some (n - 55)
         else if 97 \<le> n \<and> n \<le> 102 then Some (n - 87)
         else None)"

datatype uri_token = Lit char | Esc nat char char

fun uri_tokens :: "string \<Rightarrow> uri_token list option" where
  "uri_tokens [] = Some []"
| "uri_tokens (c # cs) =
     (if c \<noteq> CHR ''%'' then map_option ((#) (Lit c)) (uri_tokens cs)
      else (case cs of
              h1 # h2 # rest \<Rightarrow>
                (case (hex_value h1, hex_value h2) of
                   (Some a, Some b) \<Rightarrow> map_option ((#) (Esc (16 * a + b) h1 h2)) (uri_tokens rest)
                 | _ \<Rightarrow> None)
            | _ \<Rightarrow> None))"

definition reservedURISet :: "nat list" where
  "reservedURISet = map of_char '';/?:@&=+$,#''"

definition continuation :: "uri_token \<Rightarrow> nat option" where
  "continuation t = (case t of Esc b h1 h2 \<Rightarrow> if 128 \<le> b \<and> b < 192 then Some (b mod 64) else None | Lit c \<Rightarrow> None)"

definition code_units :: "nat \<Rightarrow> nat list" where
  "code_units v =
     (if v < 65536 then [v]
      else [55296 + ((v - 65536) div 1024) mod 1024, 56320 + (v - 65536) mod 1024])"

definition utf8_sequence :: "nat \<Rightarrow> uri_token list \<Rightarrow> (nat \<times> uri_token list) option" where
  "utf8_sequence b ts =
     (if b < 192 then None
      else if b < 224 then
        (case ts of
           t1 # ts' \<Rightarrow>
             (case continuation t1 of
                Some c1 \<Rightarrow>
                  (let v = (b mod 32) * 64 + c1
                   in if v < 128 then None else Some (v, ts'))
              | None \<Rightarrow> None)
         | _ \<Rightarrow> None)
      else if b < 240 then
        (case ts of
           t1 # t2 # ts' \<Rightarrow>
             (case (continuation t1, continuation t2) of
                (Some c1, Some c2) \<Rightarrow>
                  (let v = (b mod 16) * 4096 + c1 * 64 + c2
                   in if v < 2048 \<or> (55296 \<le> v \<and> v < 57344) then None
                      else Some (v, ts'))
              | _ \<Rightarrow> None)
         | _ \<Rightarrow> None)
      else if b < 248 then
        (case ts of
           t1 # t2 # t3 # ts' \<Rightarrow>
             (case (continuation t1, continuation t2, continuation t3) of
                (Some c1, Some c2, Some c3) \<Rightarrow>
                  (let v = (b mod 8) * 262144 + c1 * 4096 + c2 * 64 + c3
                   in if v < 65536 \<or> 1114112 \<le> v then None
                      else Some (v, ts'))
              | _ \<Rightarrow> None)
         | _ \<Rightarrow> None)
      else None)"

lemma utf8_sequence_shorter:
  "utf8_sequence b ts = Some (v, ts') \<Longrightarrow> length ts' < length ts"
  by (auto simp: utf8_sequence_def Let_def split: if_splits list.splits option.splits)

function decode_tokens :: "uri_token list \<Rightarrow> nat list option" where
  "decode_tokens [] = Some []"
| "decode_tokens (Lit c # ts) = map_option ((#) (of_char c)) (decode_tokens ts)"
| "decode_tokens (Esc b h1 h2 # ts) =
     (if b < 128 then
        map_option ((@) (if b \<in> set reservedURISet then map of_char [CHR ''%'', h1, h2] else [b]))
          (decode_tokens ts)
      else (case utf8_sequence b ts of
              None \<Rightarrow> None
            | Some (v, ts') \<Rightarrow> map_option ((@) (code_units v)) (decode_tokens ts')))"
  by pat_completeness auto
termination
  by (relation "measure length") (auto dest: utf8_sequence_shorter)

definition decodeURI :: "string \<Rightarrow> js_error + nat list" where
  "decodeURI encodedURI =
     (case uri_tokens encodedURI of
        None \<Rightarrow> Inl URIError
      | Some ts \<Rightarrow> (case decode_tokens ts of None \<Rightarrow> Inl URIError | Some units \<Rightarrow> Inr units))"

text \<open>
  Both branches of \<^verbatim>\<open>_createBlob\<close> (the legacy \<^verbatim>\<open>BlobBuilder\<close> and the \<^verbatim>\<open>Blob\<close>
  constructor) make a blob of the given bytes and type. The platform stores the type in
  lower case, and stores the empty string if a character of it lies outside
  \<^verbatim>\<open>U+0020\<close> to \<^verbatim>\<open>U+007E\<close>.
\<close>

definition toLowerCase :: "char \<Rightarrow> char" where
  "toLowerCase c =
     (let n = of_char c :: nat in if 65 \<le> n \<and> n \<le> 90 then char_of (n + 32) else c)"

definition storedType :: "string \<Rightarrow> string" where
  "storedType t =
     (if list_all (\<lambda>c. 32 \<le> (of_char c :: nat) \<and> (of_char c :: nat) \<le> 126) t
      then map toLowerCase t else [])"

definition createBlob :: "8 word list \<Rightarrow> string \<Rightarrow> blob" where
  "createBlob data mime = \<lparr>blob_name = None, blob_type = storedType mime, blob_bytes = data\<rparr>"

definition dataUriToBlob :: "string \<Rightarrow> js_error + blob" where
  \<comment> \<open>\<^verbatim>\<open>dataUri.split(",")[1]\<close> is \<^verbatim>\<open>undefined\<close> when there is no comma, which both
      decoders read as the text \<^verbatim>\<open>undefined\<close>; \<^verbatim>\<open>split(":")[1]\<close> is \<^verbatim>\<open>undefined\<close> when the
      header has no colon, and calling \<^verbatim>\<open>split\<close> on it throws a \<^verbatim>\<open>TypeError\<close>. Writing
      the code units into the \<^verbatim>\<open>Uint8Array\<close> keeps them modulo 256.\<close>
  "dataUriToBlob dataUri =
     (case split_on CHR '','' dataUri of
        [] \<Rightarrow> Inl TypeError
      | header # pieces \<Rightarrow>
          (case (if indexOfString header ''base64'' \<ge> 0
                 then atob (js_str (index (header # pieces) 1))
                 else decodeURI (js_str (index (header # pieces) 1))) of
             Inl e \<Rightarrow> Inl e
           | Inr byteString \<Rightarrow>
               (case index (split_on CHR '':'' header) 1 of
                  None \<Rightarrow> Inl TypeError
                | Some afterColon \<Rightarrow>
                    (case split_on CHR '';'' afterColon of
                       [] \<Rightarrow> Inl TypeError
                     | mimeString # params \<Rightarrow>
                         Inr (createBlob (map of_nat byteString) mimeString)))))"

section \<open>The derivative generator: \<^verbatim>\<open>_generateScaledImage\<close>\<close>

text \<open>
  A \<^verbatim>\<open>qq.Promise\<close> is pending until it is resolved with a value or rejected with a
  reason. The generator is driven by events of its collaborators, which are parameters of
  the model, fixed for one run:
  \<^item> \<open>rendering\<close>: whether \<^verbatim>\<open>imageGenerator.generate\<close> succeeds, fails, or never answers;
  \<^item> \<open>toDataURL\<close>: what \<^verbatim>\<open>canvas.toDataURL(type, quality)\<close> returns after rendering;
  \<^item> \<open>reading\<close>: whether the \<^verbatim>\<open>FileReader\<close> fires \<^verbatim>\<open>onload\<close> (with the Data-URI of the
    original), \<^verbatim>\<open>onerror\<close>, or nothing;
  \<^item> \<open>restore\<close>: \<^verbatim>\<open>ExifRestorer.restore\<close>.
  A run yields the final state of the promise \<^verbatim>\<open>scalingEffort\<close>, the messages handed to
  the logger (each with the level passed, if one was), and the exception, if any, that
  left an event handler uncaught.
\<close>

datatype ('a, 'e) promise = Pending | Success 'a | Failure 'e

datatype render_event = Rendered | RenderFailed | NoRenderEvent

datatype read_event = Loaded string | ReadError | NoReadEvent

record world =
  rendering :: render_event
  toDataURL :: "string option \<Rightarrow> rat \<Rightarrow> string"
  reading :: read_event
  restore :: "string \<Rightarrow> string \<Rightarrow> string option"
  \<comment> \<open>Modelled from the spec: \<^verbatim>\<open>ExifRestorer.restore\<close> is not among the sources. The spec
      gives its contract as \<^verbatim>\<open>restore(originalDataUri, renderedDataUri) -> mergedDataUri
      (may fail)\<close>; a synchronous call fails by throwing, which is \<^term>\<open>None\<close> here.\<close>

type_synonym log_entry = "string \<times> string option"

record run =
  scalingEffort :: "(blob, string) promise"
  logged :: "log_entry list"
  uncaught :: "js_error option"

definition insertExifHeader ::
  "world \<Rightarrow> blob \<Rightarrow> string \<Rightarrow> (string, unit) promise \<times> log_entry list \<times> js_error option"
  where
  \<comment> \<open>The state of \<^verbatim>\<open>insertionEffort\<close>, the messages logged and the uncaught exception.
      An exception thrown by \<^verbatim>\<open>restore\<close> leaves the \<^verbatim>\<open>onload\<close> handler before
      \<^verbatim>\<open>insertionEffort.success\<close> is called.\<close>
  "insertExifHeader w originalImage scaledImageDataUri =
     (case reading w of
        Loaded originalImageDataUri \<Rightarrow>
          (case restore w originalImageDataUri scaledImageDataUri of
             Some merged \<Rightarrow> (Success merged, [], None)
           | None \<Rightarrow> (Pending, [], Some TransplantError))
      | ReadError \<Rightarrow>
          (Failure (),
           [(''Problem reading '' @ js_str (blob_name originalImage)
               @ '' during attempt to transfer EXIF data to scaled version.'', Some ''error'')],
           None)
      | NoReadEvent \<Rightarrow> (Pending, [], None))"

definition signalSuccess :: "blob \<Rightarrow> log_entry list \<Rightarrow> string \<Rightarrow> run" where
  \<comment> \<open>The local function \<^verbatim>\<open>signalSuccess\<close>, applied to the Data-URI that
      \<^verbatim>\<open>scaledImageDataUri\<close> holds when it is called; \<open>logs\<close> are the messages so far.\<close>
  "signalSuccess sourceFile logs scaledImageDataUri =
     (let logs' = logs @ [(''Success generating scaled version for ''
                            @ js_str (blob_name sourceFile), None)]
      in case dataUriToBlob scaledImageDataUri of
           Inr blob \<Rightarrow> \<lparr>scalingEffort = Success blob, logged = logs', uncaught = None\<rparr>
         | Inl e \<Rightarrow> \<lparr>scalingEffort = Pending, logged = logs', uncaught = Some e\<rparr>)"

definition generateScaledImage :: "world \<Rightarrow> generator_spec \<Rightarrow> blob \<Rightarrow> run" where
  "generateScaledImage w spec sourceFile =
     (let type = gtype spec;
          quality = gquality spec;
          failedText = gfailedText spec;
          includeExif = (gincludeExif spec \<and> blob_type sourceFile = ''image/jpeg''
                         \<and> type = Some ''image/jpeg'');
          logs = [(''Attempting to generate scaled version for ''
                     @ js_str (blob_name sourceFile), None)]
      in case rendering w of
           Rendered \<Rightarrow>
             (let scaledImageDataUri = toDataURL w type quality
              in if includeExif then
                   (case insertExifHeader w sourceFile scaledImageDataUri of
                      (Success scaledImageDataUriWithExif, l, e) \<Rightarrow>
                        signalSuccess sourceFile (logs @ l) scaledImageDataUriWithExif
                    | (Failure u, l, e) \<Rightarrow>
                        signalSuccess sourceFile
                          (logs @ l @
                            [(''Problem inserting EXIF header into scaled image.  Using scaled image w/out EXIF data.'',
                              Some ''error'')])
                          scaledImageDataUri
                    | (Pending, l, e) \<Rightarrow>
                        \<lparr>scalingEffort = Pending, logged = logs @ l, uncaught = e\<rparr>)
                 else signalSuccess sourceFile logs scaledImageDataUri)
         | RenderFailed \<Rightarrow>
             \<lparr>scalingEffort = Failure failedText,
              logged = logs @ [(''Failed attempt to generate scaled version for ''
                                 @ js_str (blob_name sourceFile), Some ''error'')],
              uncaught = None\<rparr>
         | NoRenderEvent \<Rightarrow> \<lparr>scalingEffort = Pending, logged = logs, uncaught = None\<rparr>)"

section \<open>Building a Data-URI\<close>

text \<open>
  The round trip of the codec starts from a byte sequence and a MIME type. The source has
  no encoder, so the two below follow the words of the specification: the payload is the
  standard base64 text of the bytes (what \<^verbatim>\<open>btoa\<close> makes, with padding) after the header
  \<^verbatim>\<open>data:<mime>;base64\<close>, or the percent-encoding of the bytes (each byte written as
  \<^verbatim>\<open>%\<close> and two hexadecimal digits) after the header \<^verbatim>\<open>data:<mime>\<close>.
\<close>

definition b64_char :: "nat \<Rightarrow> char" where
  "b64_char v =
     (if v < 26 then char_of (65 + v)
      else if v < 52 then char_of (71 + v)
      else if v < 62 then char_of (v - 4)
      else if v = 62 then CHR ''+''
      else CHR ''/'')"

fun btoa :: "nat list \<Rightarrow> string" where
  "btoa (x # y # z # rest) =
     b64_char (x div 4) # b64_char ((x mod 4) * 16 + y div 16)
       # b64_char ((y mod 16) * 4 + z div 64) # b64_char (z mod 64) # btoa rest"
| "btoa [x, y] =
     [b64_char (x div 4), b64_char ((x mod 4) * 16 + y div 16), b64_char ((y mod 16) * 4),
      CHR ''='']"
| "btoa [x] = [b64_char (x div 4), b64_char ((x mod 4) * 16), CHR ''='', CHR ''='']"
| "btoa [] = []"

definition hex_digit :: "nat \<Rightarrow> char" where
  "hex_digit n = (if n < 10 then char_of (48 + n) else char_of (55 + n))"

definition percent_escape :: "8 word \<Rightarrow> string" where
  "percent_escape b = [CHR ''%'', hex_digit (unat b div 16), hex_digit (unat b mod 16)]"

definition base64DataUri :: "string \<Rightarrow> 8 word list \<Rightarrow> string" where
  "base64DataUri mime bytes = ''data:'' @ mime @ '';base64,'' @ btoa (map unat bytes)"

definition percentDataUri :: "string \<Rightarrow> 8 word list \<Rightarrow> string" where
  "percentDataUri mime bytes = ''data:'' @ mime @ '','' @ concat (map percent_escape bytes)"

section \<open>Properties of the derivative generator\<close>

lemma eachSize_records:
  "fst (eachSize pf sv spec nm ob ss (recs, k))
     = recs @ map (\<lambda>(j, s). scaledRecord pf sv spec nm ob j s) (zip [k..<k + length ss] ss)"
proof (induction ss arbitrary: recs k)
  case Nil
  then show ?case by simp
next
  case (Cons s ss)
  have "k < k + length (s # ss)" by simp
  then have "[k..<k + length (s # ss)] = k # [Suc k..<k + length (s # ss)]"
    by (rule upt_conv_Cons)
  then have "zip [k..<k + length (s # ss)] (s # ss)
               = (k, s) # zip [Suc k..<Suc k + length ss] ss"
    by simp
  with Cons.IH [of "recs @ [scaledRecord pf sv spec nm ob k s]" "Suc k"] show ?case
    by (simp del: upt_Suc)
qed

lemma scaledRecord_blob:
  "rblob (scaledRecord pf sv spec nm ob j s) = BlobProxy b g \<Longrightarrow>
     b = ob \<and> gfailedText g = failureText spec \<and> gincludeExif g = includeExif spec
     \<and> gmaxSize g = maxSize s"
  by (auto simp: scaledRecord_def Let_def)

lemma getFileRecords_failedText:
  assumes "r \<in> set (fst (getFileRecords pf sv spec k fid nm input))"
    and "rblob r = BlobProxy b g"
  shows "gfailedText g = failureText spec"
proof -
  from assms obtain j s where "r = scaledRecord pf sv spec nm (originalBlobOf input) j s"
    by (auto simp: getFileRecords_def Let_def split_beta eachSize_records split: if_splits)
  with assms(2) show ?thesis
    using scaledRecord_blob by blast
qed

lemma generateScaledImage_render_failed:
  assumes "rendering w = RenderFailed"
  shows "generateScaledImage w g src =
      \<lparr>scalingEffort = Failure (gfailedText g),
       logged = [(''Attempting to generate scaled version for '' @ js_str (blob_name src), None),
                 (''Failed attempt to generate scaled version for '' @ js_str (blob_name src),
                  Some ''error'')],
       uncaught = None\<rparr>"
  using assms by (simp add: generateScaledImage_def Let_def)

text \<open>
  Claim C2: take any variant that \<^verbatim>\<open>getFileRecords\<close> made (a record whose blob is a proxy
  for the generator closed over \<open>g\<close>) and any run in which the rendering engine fails. The
  promise of the variant is rejected with exactly the \<^verbatim>\<open>failureText\<close> of the scaler's
  options, whatever the EXIF options, the reader and the transplant do, and the message
  of the failure is logged with the level \<^verbatim>\<open>error\<close>.
\<close>

theorem render_failure_rejects_with_failure_text:
  assumes "r \<in> set (fst (getFileRecords pf sv spec k fid nm input))"
    and "rblob r = BlobProxy b g"
    and "rendering w = RenderFailed"
  shows "generateScaledImage w g b =
      \<lparr>scalingEffort = Failure (failureText spec),
       logged = [(''Attempting to generate scaled version for '' @ js_str (blob_name b), None),
                 (''Failed attempt to generate scaled version for '' @ js_str (blob_name b),
                  Some ''error'')],
       uncaught = None\<rparr>"
proof -
  have "gfailedText g = failureText spec"
    using assms(1,2) by (rule getFileRecords_failedText)
  with generateScaledImage_render_failed [OF assms(3), of g b] show ?thesis
    by simp
qed

theorem render_failure_rejects_with_failure_text_witness:
  "scalingEffort (generateScaledImage
      \<lparr>rendering = RenderFailed, toDataURL = (\<lambda>t q. ''data:,''), reading = ReadError,
       restore = (\<lambda>original scaled. None)\<rparr>
      \<lparr>gmaxSize = 100, gorient = True, gtype = Some ''image/jpeg'', gquality = 4 / 5,
       gfailedText = ''Failed to scale'', gincludeExif = True\<rparr>
      \<lparr>blob_name = Some ''photo.jpg'', blob_type = ''image/jpeg'', blob_bytes = []\<rparr>)
   = Failure ''Failed to scale''"
proof -
  let ?pf = "\<lparr>imagePreviews = True, tiffPreviews = False,
              PREVIEWABLE_MIME_TYPES = [''image/jpeg'', ''image/png'']\<rparr>"
  let ?sv = "\<lparr>isPreviewableSync = (\<lambda>b. blob_type b = ''image/jpeg''),
              getUniqueId = (\<lambda>k. replicate k CHR ''i'')\<rparr>"
  let ?spec = "\<lparr>sendOriginal = True, orient = True, specDefaultType = None,
        defaultQuality = 80, failureText = ''Failed to scale'', includeExif = True,
        sizes = [\<lparr>maxSize = 100, sname = ''small'', stype = None\<rparr>]\<rparr>"
  let ?b = "\<lparr>blob_name = Some ''photo.jpg'', blob_type = ''image/jpeg'', blob_bytes = []\<rparr>"
  let ?g = "\<lparr>gmaxSize = 100, gorient = True, gtype = Some ''image/jpeg'', gquality = 4 / 5,
       gfailedText = ''Failed to scale'', gincludeExif = True\<rparr>"
  let ?r = "\<lparr>uuid = [], rname = ''photo (small).jpg'', rblob = BlobProxy ?b ?g\<rparr>"
  let ?w = "\<lparr>rendering = RenderFailed, toDataURL = (\<lambda>t q. ''data:,''), reading = ReadError,
       restore = (\<lambda>original scaled. None)\<rparr>"
  have h1: "?r \<in> set (fst (getFileRecords ?pf ?sv ?spec 0 ''ref'' ''photo.jpg'' (IsBlob ?b)))"
    by (simp add: getFileRecords_def Let_def originalBlobOf_def getSortedSizes_def
      scaledRecord_def determineOutputType_def truthy_def getName_def
      or_else_def getExtension_def substr0_def js_str_def)
  have h2: "rblob ?r = BlobProxy ?b ?g" by simp
  have h3: "rendering ?w = RenderFailed" by simp
  from render_failure_rejects_with_failure_text [OF h1 h2 h3] show ?thesis
    by simp
qed

text \<open>
  The EXIF path is taken when the option is set and both the source and the negotiated
  type are \<^verbatim>\<open>image/jpeg\<close>. When the read of the original fails there, the variant still
  resolves, with the blob decoded from the rendered Data-URI, and two messages of level
  \<^verbatim>\<open>error\<close> are logged.
\<close>

lemma read_failure_degrades_gracefully:
  assumes "rendering w = Rendered"
    and "reading w = ReadError"
    and "gincludeExif g"
    and "blob_type src = ''image/jpeg''"
    and "gtype g = Some ''image/jpeg''"
    and "dataUriToBlob (toDataURL w (gtype g) (gquality g)) = Inr scaled"
  shows "generateScaledImage w g src =
     \<lparr>scalingEffort = Success scaled,
      logged =
        [(''Attempting to generate scaled version for '' @ js_str (blob_name src), None),
         (''Problem reading '' @ js_str (blob_name src)
            @ '' during attempt to transfer EXIF data to scaled version.'', Some ''error''),
         (''Problem inserting EXIF header into scaled image.  Using scaled image w/out EXIF data.'',
          Some ''error''),
         (''Success generating scaled version for '' @ js_str (blob_name src), None)],
      uncaught = None\<rparr>"
  using assms
  by (simp add: generateScaledImage_def insertExifHeader_def signalSuccess_def Let_def)

lemma transplant_exception_is_not_handled:
  assumes "rendering w = Rendered"
    and "reading w = Loaded original"
    and "restore w original (toDataURL w (gtype g) (gquality g)) = None"
    and "gincludeExif g"
    and "blob_type src = ''image/jpeg''"
    and "gtype g = Some ''image/jpeg''"
  shows "generateScaledImage w g src =
     \<lparr>scalingEffort = Pending,
      logged =
        [(''Attempting to generate scaled version for '' @ js_str (blob_name src), None)],
      uncaught = Some TransplantError\<rparr>"
  using assms
  by (simp add: generateScaledImage_def insertExifHeader_def Let_def)

text \<open>
  Claim C3 says that on the EXIF path a failure of the transplant, like a failure of the
  read, still resolves the variant with the blob of the rendered Data-URI and logs a
  failure message. The read failure does (\<open>read_failure_degrades_gracefully\<close>). A
  transplant that fails does not: \<^verbatim>\<open>reader.onload\<close> passes the result of
  \<^verbatim>\<open>ExifRestorer.restore\<close> straight to \<^verbatim>\<open>insertionEffort.success\<close>, so an exception of
  \<^verbatim>\<open>restore\<close> leaves the handler, neither callback of the generator runs, and the
  variant stays pending with nothing logged about the failure. The run below is the
  failing input: a JPEG source with EXIF requested, rendered and read successfully, and a
  transplant that throws.
\<close>

theorem transplant_failure_leaves_variant_pending:
  "generateScaledImage
      \<lparr>rendering = Rendered, toDataURL = (\<lambda>t q. ''data:image/jpeg;base64,/9j/2Q==''),
       reading = Loaded ''data:image/jpeg;base64,/9j/4Q=='',
       restore = (\<lambda>original scaled. None)\<rparr>
      \<lparr>gmaxSize = 100, gorient = True, gtype = Some ''image/jpeg'', gquality = 4 / 5,
       gfailedText = ''Failed to scale'', gincludeExif = True\<rparr>
      \<lparr>blob_name = Some ''photo.jpg'', blob_type = ''image/jpeg'', blob_bytes = []\<rparr>
   = \<lparr>scalingEffort = Pending,
      logged = [(''Attempting to generate scaled version for photo.jpg'', None)],
      uncaught = Some TransplantError\<rparr>"
  by (simp add: generateScaledImage_def insertExifHeader_def js_str_def)

section \<open>Properties of the binary codec\<close>

text \<open>
  The base64 half of the round trip holds: \<^verbatim>\<open>atob\<close> undoes \<^verbatim>\<open>btoa\<close> on every byte
  sequence, and the codec returns the bytes and the type of a base64 Data-URI built from
  them.
\<close>

lemma b64_value_char: "v < 64 \<Longrightarrow> b64_value (b64_char v) = Some v"
  by (auto simp: b64_value_def b64_char_def Let_def of_char_of)

lemma b64_value_not_special:
  "b64_value c = Some v \<Longrightarrow> \<not> isWhitespace c \<and> c \<noteq> CHR ''='' \<and> c \<noteq> CHR '',''"
  by (auto simp: b64_value_def isWhitespace_def Let_def split: if_splits)

lemma b64_char_plain:
  "v < 64 \<Longrightarrow> \<not> isWhitespace (b64_char v) \<and> b64_char v \<noteq> CHR ''='' \<and> b64_char v \<noteq> CHR '',''"
  using b64_value_char b64_value_not_special by blast

lemma eq_not_ws: "\<not> isWhitespace CHR ''=''"
  by (simp add: isWhitespace_def)

definition byte_list :: "nat list \<Rightarrow> bool" where
  \<comment> \<open>Every value is a byte.\<close>
  "byte_list bs = list_all (\<lambda>b. b < 256) bs"

lemma btoa_chars:
  "byte_list bs \<Longrightarrow> c \<in> set (btoa bs) \<Longrightarrow> \<not> isWhitespace c \<and> c \<noteq> CHR '',''"
proof (induction bs rule: btoa.induct)
  case (1 x y z rest)
  then show ?case
    by (auto simp: byte_list_def b64_char_plain)
next
  case (2 x y)
  then show ?case by (auto simp: byte_list_def b64_char_plain eq_not_ws)
next
  case (3 x)
  then show ?case by (auto simp: byte_list_def b64_char_plain eq_not_ws)
next
  case 4
  then show ?case by simp
qed


lemma length_btoa: "length (btoa bs) mod 4 = 0"
  by (induction bs rule: btoa.induct) auto

lemma btoa_empty_iff: "btoa bs = [] \<longleftrightarrow> bs = []"
  by (induction bs rule: btoa.induct) auto

lemma strip_padding_group:
  assumes "length t mod 4 = 0" and "t \<noteq> []"
  shows "strip_padding (a # b # c # d # t) = a # b # c # d # strip_padding t"
proof -
  from assms have "length t \<noteq> 0" by simp
  with assms(1) have ge: "length t \<ge> 4" by presburger
  define m where "m = length t - 2"
  have m: "length t = Suc (Suc m)"
    using ge by (simp add: m_def)
  have l: "length (a # b # c # d # t) mod 4 = 0"
    using assms(1) by simp
  have d2: "drop (length (a # b # c # d # t) - 2) (a # b # c # d # t) = drop (length t - 2) t"
    by (simp add: m)
  have d1: "drop (length (a # b # c # d # t) - 1) (a # b # c # d # t) = drop (length t - 1) t"
    by (simp add: m)
  have t2: "take (length (a # b # c # d # t) - 2) (a # b # c # d # t)
              = a # b # c # d # take (length t - 2) t"
    by (simp add: m)
  have t1: "take (length (a # b # c # d # t) - 1) (a # b # c # d # t)
              = a # b # c # d # take (length t - 1) t"
    by (simp add: m)
  have g2: "2 \<le> length (a # b # c # d # t)" "1 \<le> length (a # b # c # d # t)"
           "2 \<le> length t" "1 \<le> length t"
    by (simp_all add: m)
  show ?thesis
    unfolding strip_padding_def [of "a # b # c # d # t"] strip_padding_def [of t]
    by (simp only: l assms(1) d2 d1 t2 t1 g2 if_True simp_thms; simp)
qed

lemma strip_padding_last_group:
  "d \<noteq> CHR ''='' \<Longrightarrow> strip_padding [a, b, c, d] = [a, b, c, d]"
  by (simp add: strip_padding_def)

lemma strip_padding_one: "c \<noteq> CHR ''='' \<Longrightarrow> strip_padding [a, b, c, CHR ''=''] = [a, b, c]"
  by (simp add: strip_padding_def)

lemma strip_padding_two: "strip_padding [a, b, CHR ''='', CHR ''=''] = [a, b]"
  by (simp add: strip_padding_def)


lemma sextet_bounds:
  assumes "x < 256" "y < 256" "z < (256::nat)"
  shows "x div 4 < 64" "(x mod 4) * 16 + y div 16 < 64" "(y mod 16) * 4 + z div 64 < 64"
        "z mod 64 < 64" "(y mod 16) * 4 < 64" "(x mod 4) * 16 < 64"
  using assms by auto


lemma byte_split1:
  assumes "x < 256" "y < (256::nat)"
  shows "(x div 4) * 4 + ((x mod 4) * 16 + y div 16) div 16 = x"
  using assms by simp

lemma byte_split2:
  assumes "y < 256" "z < (256::nat)"
  shows "(((x mod 4) * 16 + y div 16) mod 16) * 16 + ((y mod 16) * 4 + z div 64) div 4 = y"
  using assms by simp

lemma byte_split3:
  assumes "z < (256::nat)"
  shows "(((y mod 16) * 4 + z div 64) mod 4) * 64 + z mod 64 = z"
  using assms by simp

lemma byte_split4:
  assumes "y < (256::nat)"
  shows "(((x mod 4) * 16 + y div 16) mod 16) * 16 + ((y mod 16) * 4) div 4 = y"
  using assms by simp

lemma byte_split5:
  assumes "x < (256::nat)"
  shows "(x div 4) * 4 + ((x mod 4) * 16) div 16 = x"
  using assms by simp

lemma sextets_group:
  assumes "v1 < 64" "v2 < 64" "v3 < 64" "v4 < 64"
  shows "sextets (b64_char v1 # b64_char v2 # b64_char v3 # b64_char v4 # t)
           = map_option (\<lambda>vs. v1 # v2 # v3 # v4 # vs) (sextets t)"
  using assms by (simp add: b64_value_char split: option.splits)

lemma decode_encode_core:
  assumes "byte_list bs"
  shows "length (strip_padding (btoa bs)) mod 4 \<noteq> 1
         \<and> map_option b64_bytes (sextets (strip_padding (btoa bs))) = Some bs"
  using assms
proof (induction bs rule: btoa.induct)
  case (1 x y z rest)
  then have b: "x < 256" "y < 256" "z < 256" and r: "byte_list rest"
    by (simp_all add: byte_list_def)
  note sb = sextet_bounds [OF b]
  let ?g = "\<lambda>t. b64_char (x div 4) # b64_char ((x mod 4) * 16 + y div 16)
       # b64_char ((y mod 16) * 4 + z div 64) # b64_char (z mod 64) # t"
  from 1 r have ih: "length (strip_padding (btoa rest)) mod 4 \<noteq> 1"
     "map_option b64_bytes (sextets (strip_padding (btoa rest))) = Some rest"
    by simp_all
  have st: "strip_padding (?g (btoa rest)) = ?g (strip_padding (btoa rest))"
  proof (cases "rest = []")
    case True
    have "b64_char (z mod 64) \<noteq> CHR ''=''"
      using sb(4) b64_char_plain by blast
    then show ?thesis
      using True by (simp add: strip_padding_def)
  next
    case False
    then have "btoa rest \<noteq> []" by (simp add: btoa_empty_iff)
    then show ?thesis
      by (rule strip_padding_group [OF length_btoa])
  qed
  from ih(2) obtain vs where vs: "sextets (strip_padding (btoa rest)) = Some vs"
      "b64_bytes vs = rest"
    by auto
  have "sextets (?g (strip_padding (btoa rest)))
          = Some (x div 4 # ((x mod 4) * 16 + y div 16) # ((y mod 16) * 4 + z div 64)
                  # z mod 64 # vs)"
    using sextets_group [OF sb(1) sb(2) sb(3) sb(4), of "strip_padding (btoa rest)"] vs(1)
    by (simp only: option.map)
  then have "map_option b64_bytes (sextets (strip_padding (btoa (x # y # z # rest))))
               = Some (x # y # z # rest)"
    using st vs(2) b by (simp add: byte_split1 byte_split2 byte_split3)
  moreover have "length (strip_padding (btoa (x # y # z # rest))) mod 4 \<noteq> 1"
    using st ih(1) by simp
  ultimately show ?case by simp
next
  case (2 x y)
  then have b: "x < 256" "y < 256" by (simp_all add: byte_list_def)
  note sb = sextet_bounds [OF b b(2)]
  have ne: "b64_char ((y mod 16) * 4) \<noteq> CHR ''=''"
    using sb(5) b64_char_plain by blast
  show ?case
    using b sb ne
    by (simp add: strip_padding_one b64_value_char byte_split1 byte_split4)
next
  case (3 x)
  then have b: "x < 256" by (simp add: byte_list_def)
  note sb = sextet_bounds [OF b b b]
  show ?case
    using b sb by (simp add: strip_padding_two b64_value_char byte_split5)
next
  case 4
  show ?case by (simp add: strip_padding_def)
qed

lemma atob_btoa: "byte_list bs \<Longrightarrow> atob (btoa bs) = Inr bs"
proof -
  assume bl: "byte_list bs"
  have f: "filter (\<lambda>c. \<not> isWhitespace c) (btoa bs) = btoa bs"
    using btoa_chars [OF bl] by (simp add: filter_id_conv)
  from decode_encode_core [OF bl] obtain vs where
    "length (strip_padding (btoa bs)) mod 4 \<noteq> 1"
    "sextets (strip_padding (btoa bs)) = Some vs" "b64_bytes vs = bs"
    by auto
  then show ?thesis
    by (simp add: atob_def f)
qed


lemma split_on_absent: "sep \<notin> set s \<Longrightarrow> split_on sep s = [s]"
  by (induction s) auto

lemma split_on_at: "sep \<notin> set a \<Longrightarrow> split_on sep (a @ sep # b) = a # split_on sep b"
  by (induction a) auto

lemma indexOfString_found: "indexOfString (pre @ pat @ post) pat \<ge> 0"
proof (induction pre)
  case Nil
  have t: "take (length pat) (pat @ post) = pat" by simp
  show ?case
  proof (cases "pat @ post")
    case Nil
    then show ?thesis by simp
  next
    case (Cons a list)
    with t have "take (length pat) (a # list) = pat" by simp
    then have "indexOfString (a # list) pat = 0" by simp
    with Cons show ?thesis by simp
  qed
next
  case (Cons c pre)
  then show ?case by (simp add: Let_def)
qed

definition plain_mime :: "string \<Rightarrow> bool" where
  \<comment> \<open>A bare MIME type as a blob stores it: printable ASCII in lower case, with none of
      the delimiters of a Data-URI header.\<close>
  "plain_mime mime =
     list_all (\<lambda>c. c \<noteq> CHR '','' \<and> c \<noteq> CHR '':'' \<and> c \<noteq> CHR '';''
                 \<and> 32 \<le> (of_char c :: nat) \<and> (of_char c :: nat) \<le> 126
                 \<and> \<not> (65 \<le> (of_char c :: nat) \<and> (of_char c :: nat) \<le> 90)) mime"

lemma storedType_plain: "plain_mime mime \<Longrightarrow> storedType mime = mime"
proof -
  assume p: "plain_mime mime"
  then have "list_all (\<lambda>c. 32 \<le> (of_char c :: nat) \<and> (of_char c :: nat) \<le> 126) mime"
    by (simp add: plain_mime_def list_all_iff)
  moreover from p have "map toLowerCase mime = mime"
    by (induction mime) (auto simp: plain_mime_def toLowerCase_def Let_def)
  ultimately show ?thesis by (simp add: storedType_def)
qed

lemma byte_list_unat: "byte_list (map unat (bytes :: 8 word list))"
proof -
  have "unat b < 256" for b :: "8 word"
    using unsigned_less [of b, where 'a = nat] by simp
  then show ?thesis by (simp add: byte_list_def list_all_iff)
qed

lemma base64_round_trip:
  assumes "plain_mime mime"
  shows "dataUriToBlob (base64DataUri mime bytes)
           = Inr \<lparr>blob_name = None, blob_type = mime, blob_bytes = bytes\<rparr>"
proof -
  let ?header = "''data:'' @ mime @ '';base64''"
  let ?payload = "btoa (map unat bytes)"
  from assms have m: "CHR '','' \<notin> set mime" "CHR '':'' \<notin> set mime" "CHR '';'' \<notin> set mime"
    by (auto simp: plain_mime_def list_all_iff)
  have uri: "base64DataUri mime bytes = ?header @ CHR '','' # ?payload"
    by (simp add: base64DataUri_def)
  have h: "CHR '','' \<notin> set ?header" using m(1) by simp
  have p: "CHR '','' \<notin> set ?payload"
    using btoa_chars [OF byte_list_unat] by blast
  have pieces: "split_on CHR '','' (base64DataUri mime bytes) = [?header, ?payload]"
    unfolding uri using split_on_at [OF h, of ?payload] split_on_absent [OF p] by simp
  have b64: "indexOfString ?header ''base64'' \<ge> 0"
    using indexOfString_found [of "''data:'' @ mime @ '';''" "''base64''" "[]"] by simp
  have dec: "atob ?payload = Inr (map unat bytes)"
    using byte_list_unat by (rule atob_btoa)
  have colon: "split_on CHR '':'' ?header = [''data'', mime @ '';base64'']"
  proof -
    have "CHR '':'' \<notin> set (mime @ '';base64'')" using m(2) by simp
    then have "split_on CHR '':'' (mime @ '';base64'') = [mime @ '';base64'']"
      by (rule split_on_absent)
    then show ?thesis by simp
  qed
  have semi: "split_on CHR '';'' (mime @ '';base64'') = [mime, ''base64'']"
    using split_on_at [OF m(3), of "''base64''"] by simp
  have bytes: "map of_nat (map unat bytes) = bytes"
    by (simp add: map_idI)
  show ?thesis
    unfolding dataUriToBlob_def pieces
    using b64 dec colon semi bytes storedType_plain [OF assms]
    by (simp add: js_str_def createBlob_def)
qed

text \<open>
  Claim C4 says that the bytes and the type survive the round trip through a Data-URI for
  base64 and for percent-encoded payloads. For percent-encoded payloads the codec calls
  \<^verbatim>\<open>decodeURI\<close>, which keeps the escape of a reserved character as it is written and
  reads an escape of 128 or more as UTF-8. The byte \<open>0x2C\<close> (a comma), encoded as
  \<^verbatim>\<open>%2C\<close>, comes back as the three bytes of the text \<^verbatim>\<open>%2C\<close>, and the byte \<open>0xFF\<close>,
  encoded as \<^verbatim>\<open>%FF\<close>, makes the codec throw a \<^verbatim>\<open>URIError\<close>. A comma left as it is in
  the payload fares no better: the payload is cut there, and no byte comes back.
\<close>

theorem percent_round_trip_fails:
  "percentDataUri ''image/png'' [44] = ''data:image/png,%2C''
   \<and> dataUriToBlob (percentDataUri ''image/png'' [44])
     = Inr \<lparr>blob_name = None, blob_type = ''image/png'', blob_bytes = [37, 50, 67]\<rparr>
   \<and> percentDataUri ''image/png'' [255] = ''data:image/png,%FF''
   \<and> dataUriToBlob (percentDataUri ''image/png'' [255]) = Inl URIError
   \<and> dataUriToBlob ''data:image/png,,''
     = Inr \<lparr>blob_name = None, blob_type = ''image/png'', blob_bytes = []\<rparr>"
  by code_simp

text \<open>
  Claim C5 says that the payload is everything after the first comma. The codec takes
  \<^verbatim>\<open>dataUri.split(",")[1]\<close>, the text between the first comma and the second: of the
  payload \<^verbatim>\<open>a,b\<close> only \<^verbatim>\<open>a\<close> is decoded, where decoding the whole remainder would give
  three bytes.
\<close>

theorem payload_with_comma_is_truncated:
  "dataUriToBlob ''data:text/plain,a,b''
     = Inr \<lparr>blob_name = None, blob_type = ''text/plain'', blob_bytes = [97]\<rparr>
   \<and> decodeURI ''a,b'' = Inr [97, 44, 98]"
  by code_simp

end
